theory Spec2Isabelle
  imports
    Complex_Main
    "HOL-Library.Multiset"
    "HOL-Library.Char_ord"
    "HOL-Library.List_Lexorder"
    "HOL-Library.Product_Lexorder"
begin

section \<open>Strings\<close>

text \<open>
  The helpers the report code uses on strings: the decimal text of a number (Python's
  \<open>str\<close>), Python's \<open>zfill\<close>, and JavaScript's \<open>split\<close>, \<open>join\<close> and
  \<open>shift\<close> with the line break as separator.
\<close>

definition digit_char :: "nat \<Rightarrow> char" where
  "digit_char d = ''0123456789'' ! d"

fun str :: "nat \<Rightarrow> string" where
  "str n = (if n < 10 then [digit_char n] else str (n div 10) @ [digit_char (n mod 10)])"

declare str.simps [simp del]

definition zfill :: "nat \<Rightarrow> string \<Rightarrow> string" where
  "zfill w s = replicate (w - length s) (CHR ''0'') @ s"

definition newline :: char where
  "newline = CHR 0x0A"

definition quote :: char where
  "quote = CHR 0x27"

fun split :: "char \<Rightarrow> string \<Rightarrow> string list" where
  "split c [] = [[]]"
| "split c (x # xs) =
     (if x = c then [] # split c xs
      else (case split c xs of [] \<Rightarrow> [[x]] | l # ls \<Rightarrow> (x # l) # ls))"

fun join :: "char \<Rightarrow> string list \<Rightarrow> string" where
  "join c [] = []"
| "join c [l] = l"
| "join c (l # m # ls) = l @ c # join c (m # ls)"

definition shift :: "'a list \<Rightarrow> 'a list" where
  "shift ls = tl ls"

section \<open>The tap callback (tap_callback_jscode)\<close>

text \<open>
  The objects handed to the callback. The component table is the column data source that
  \<open>create_data_struct\<close> builds (the column \<open>size\<close> is \<open>cds_size\<close> here) together with the
  indices of the selection; the stored series and spectra are dictionaries from column name
  to column. A JavaScript value that may be \<open>undefined\<close> is an option, with \<open>None\<close> for
  \<open>undefined\<close>; in the angle column \<open>None\<close> is a value that is not a finite number.
\<close>

record comptable_cds =
  cds_kappa :: "real list"
  cds_rho :: "real list"
  cds_varexp :: "real list"
  cds_kappa_rank :: "real list"
  cds_rho_rank :: "real list"
  cds_varexp_rank :: "real list"
  cds_component :: "string list"
  cds_color :: "string list"
  cds_size :: "real list"
  cds_classif :: "string list"
  cds_angle :: "real option list"

record comp_table =
  data :: comptable_cds
  selected_indices :: "nat list"

record plot_cds =
  plot_x :: "real list"
  plot_y :: "real option list"

record callback_args =
  source_comp_table :: comp_table
  source_meica_ts :: "string \<rightharpoonup> real list"
  source_meica_fft :: "string \<rightharpoonup> real list"
  outdir :: string

record callback_state =
  source_tsplot :: plot_cds
  source_fftplot :: plot_cds
  ts_line_color :: "string option"
  fft_line_color :: "string option"
  div_text :: string

datatype js_error = TypeError

text \<open>
  \<open>selected_idx\<close> is an array. \<open>selected_idx > 0\<close> converts it to a number through its
  text: the empty array is 0, a one-element array is its element, any longer array is NaN,
  and a comparison with NaN is false.
\<close>

definition to_number :: "nat list \<Rightarrow> nat option" where
  "to_number idx = (case idx of [] \<Rightarrow> Some 0 | [k] \<Rightarrow> Some k | _ \<Rightarrow> None)"

definition gt_zero :: "nat list \<Rightarrow> bool" where
  "gt_zero idx = (case to_number idx of None \<Rightarrow> False | Some k \<Rightarrow> 0 < k)"

text \<open>
  \<open>column[selected_idx]\<close> uses the array's text as the property key: a one-element array
  reads that element's position, anything else (or a position past the end) is
  \<open>undefined\<close>.
\<close>

definition index_by :: "'a list \<Rightarrow> nat list \<Rightarrow> 'a option" where
  "index_by col idx =
     (case idx of [k] \<Rightarrow> (if k < length col then Some (col ! k) else None) | _ \<Rightarrow> None)"

definition to_string :: "string option \<Rightarrow> string" where
  "to_string v = (case v of None \<Rightarrow> ''undefined'' | Some s \<Rightarrow> s)"

function pad2 :: "string \<Rightarrow> string" where
  "pad2 s = (if length s < 2 then pad2 (CHR ''0'' # s) else s)"
  by pat_completeness auto
termination
  by (relation "measure (\<lambda>s. 2 - length s)") auto

declare pad2.simps [simp del]

text \<open>Reading and writing an array element; a write past the end extends the array.\<close>

definition js_get :: "real list \<Rightarrow> nat \<Rightarrow> real option" where
  "js_get a i = (if i < length a then Some (a ! i) else None)"

definition js_set :: "real option list \<Rightarrow> nat \<Rightarrow> real option \<Rightarrow> real option list" where
  "js_set a i v =
     (if i < length a then a[i := v] else a @ replicate (i - length a) None @ [v])"

text \<open>
  The two copying loops \<open>for (i = 0; i < x.length; i++) y[i] = src[i]\<close>. When the
  column name is not in the dictionary, \<open>src\<close> is \<open>undefined\<close> and the first \<open>src[i]\<close>
  throws. An exception ends the callback; the model then returns the error alone and
  does not keep what the callback had changed before it.
\<close>

definition copy_loop :: "plot_cds \<Rightarrow> real list option \<Rightarrow> js_error + plot_cds" where
  "copy_loop p src =
     (case src of
        None \<Rightarrow> (if plot_x p = [] then Inr p else Inl TypeError)
      | Some ys \<Rightarrow>
          Inr (p\<lparr>plot_y := fold (\<lambda>i y. js_set y i (js_get ys i)) [0..<length (plot_x p)] (plot_y p)\<rparr>))"

text \<open>The two loops \<open>for (i = 0; i < x.length; i++) y[i] = 0\<close>.\<close>

definition zero_loop :: "plot_cds \<Rightarrow> plot_cds" where
  "zero_loop p =
     p\<lparr>plot_y := fold (\<lambda>i y. js_set y i (Some 0)) [0..<length (plot_x p)] (plot_y p)\<rparr>"

definition image_line :: "string \<Rightarrow> string \<Rightarrow> string" where
  "image_line out selected_padded_forIMG =
     ''<span><img src='' @ [quote] @ out @ ''/figures/comp_'' @ selected_padded_forIMG
       @ ''.png'' @ [quote] @ '' alt='' @ [quote] @ ''Component Map'' @ [quote]
       @ '' height=1000 width=900><span>'' @ [newline]"

text \<open>
  The panel update after \<open>div.text = ""\<close>: the line is appended to the panel's text, the
  text is cut into lines, the first line is dropped when there are more than 35, and the
  lines are joined again.
\<close>

definition append_line :: "string \<Rightarrow> string \<Rightarrow> string" where
  "append_line div_text0 line =
     (let text1 = div_text0 @ line;
          lines = split newline text1;
          lines' = (if length lines > 35 then shift lines else lines)
      in join newline lines')"

definition tap :: "callback_args \<Rightarrow> callback_state \<Rightarrow> js_error + callback_state" where
  "tap a s =
     (let table = source_comp_table a;
          selected_idx = selected_indices table
      in if gt_zero selected_idx then
           (let selected = index_by (cds_component (data table)) selected_idx;
                selected_padded = pad2 (to_string selected);
                selected_padded_forIMG = CHR ''0'' # selected_padded;
                selected_padded_C = ''ica_'' @ selected_padded;
                this_component_color = index_by (cds_color (data table)) selected_idx;
                s1 = s\<lparr>ts_line_color := this_component_color,
                       fft_line_color := this_component_color\<rparr>
            in case copy_loop (source_tsplot s1) (source_meica_ts a selected_padded_C) of
                 Inl e \<Rightarrow> Inl e
               | Inr ts \<Rightarrow>
                   (case copy_loop (source_fftplot s1) (source_meica_fft a selected_padded_C) of
                      Inl e \<Rightarrow> Inl e
                    | Inr fft \<Rightarrow>
                        (let s2 = s1\<lparr>source_tsplot := ts, source_fftplot := fft,
                                    div_text := []\<rparr>;
                             line = image_line (outdir a) selected_padded_forIMG
                         in Inr (s2\<lparr>div_text := append_line (div_text s2) line\<rparr>))))
         else
           (let this_component_color = Some ''#000000'';
                s1 = s\<lparr>ts_line_color := this_component_color,
                       fft_line_color := this_component_color\<rparr>
            in Inr (s1\<lparr>source_tsplot := zero_loop (source_tsplot s1),
                       source_fftplot := zero_loop (source_fftplot s1),
                       div_text := [newline]\<rparr>)))"

text \<open>
  In a column data source the columns have one length. The two plots are built that way,
  and the callback keeps it.
\<close>

definition well_formed :: "callback_state \<Rightarrow> bool" where
  "well_formed s =
     (length (plot_y (source_tsplot s)) = length (plot_x (source_tsplot s)) \<and>
      length (plot_y (source_fftplot s)) = length (plot_x (source_fftplot s)))"

section \<open>The component table (create_data_struct)\<close>

text \<open>
  A row of the table after parsing and transposing, with the columns the function uses.
  Numbers are real numbers: rounding of floating-point arithmetic is not modelled.
\<close>

datatype py_error = KeyError string | ValueError | NameError string

record comp_row =
  kappa :: real
  rho :: real
  var_exp :: real
  normalized_variance_explained :: real
  classification :: string

definition color_mapping :: "string \<rightharpoonup> string" where
  "color_mapping = map_of [(''accepted'', ''#2ecc71''),
                           (''rejected'', ''#e74c3c''),
                           (''ignored'', ''#3498db'')]"

text \<open>
  \<open>MinMaxScaler(feature_range=(lo, hi)).fit_transform\<close>: each column is scaled with its own
  minimum and range, a range of zero is replaced by one, and an input with no rows is
  refused.
\<close>

definition handle_zeros_in_scale :: "real \<Rightarrow> real" where
  "handle_zeros_in_scale r = (if r = 0 then 1 else r)"

definition scale_column :: "real \<Rightarrow> real \<Rightarrow> real list \<Rightarrow> real list" where
  "scale_column lo hi col =
     (let data_min = Min (set col);
          data_max = Max (set col);
          data_range = data_max - data_min;
          scale = (hi - lo) / handle_zeros_in_scale data_range;
          min0 = lo - data_min * scale
      in map (\<lambda>x. x * scale + min0) col)"

definition fit_transform :: "real \<Rightarrow> real \<Rightarrow> (real \<times> real) list \<Rightarrow> py_error + (real \<times> real) list" where
  "fit_transform lo hi X =
     (if X = [] then Inl ValueError
      else Inr (zip (scale_column lo hi (map fst X)) (scale_column lo hi (map snd X))))"

text \<open>
  \<open>Series.rank(ascending=False)\<close> with the default method \<open>average\<close>: in descending order
  the values equal to \<open>x\<close> take the places after the \<open>g\<close> larger values, and each of the
  \<open>e\<close> of them gets the mean of the places \<open>g + 1, \<dots>, g + e\<close>.
\<close>

definition average_rank :: "real list \<Rightarrow> real \<Rightarrow> real" where
  "average_rank col x =
     (let g = length (filter (\<lambda>y. x < y) col);
          e = length (filter (\<lambda>y. y = x) col)
      in real g + (real e + 1) / 2)"

definition rank_descending :: "real list \<Rightarrow> real list" where
  "rank_descending col = map (average_rank col) col"

text \<open>\<open>[color_mapping[i] for i in df['classification']]\<close>: the first missing key raises.\<close>

fun lookup_colors :: "(string \<rightharpoonup> string) \<Rightarrow> string list \<Rightarrow> py_error + string list" where
  "lookup_colors cm [] = Inr []"
| "lookup_colors cm (c # cs) =
     (case cm c of
        None \<Rightarrow> Inl (KeyError c)
      | Some v \<Rightarrow> (case lookup_colors cm cs of Inl e \<Rightarrow> Inl e | Inr vs \<Rightarrow> Inr (v # vs)))"

text \<open>
  \<open>df['var_exp'] / df['var_exp'].sum() * 2 * pi\<close>. A division by a zero sum raises nothing:
  it gives values that are not finite numbers.
\<close>

definition angle_column :: "real list \<Rightarrow> real option list" where
  "angle_column col =
     (let total = sum_list col
      in map (\<lambda>v. if total = 0 then None else Some (v / total * 2 * pi)) col)"

text \<open>A row of the data frame once the derived columns are there.\<close>

record frame_row =
  df_kappa :: real
  df_rho :: real
  df_var_exp :: real
  df_var_exp_size :: real
  df_rho_rank :: real
  df_kappa_rank :: real
  df_var_exp_rank :: real
  df_classification :: string
  df_color :: string
  df_component :: nat
  df_angle :: "real option"

definition derive_columns :: "(string \<rightharpoonup> string) \<Rightarrow> comp_row list \<Rightarrow> py_error + frame_row list" where
  "derive_columns cm df =
     (let n_comps = length df
      in case fit_transform 4 20 (map (\<lambda>r. (var_exp r, normalized_variance_explained r)) df) of
           Inl e \<Rightarrow> Inl e
         | Inr scaled \<Rightarrow>
             (let var_exp_size = map fst scaled;
                  rho_rank = rank_descending (map rho df);
                  kappa_rank = rank_descending (map kappa df);
                  var_exp_rank = rank_descending (map var_exp df)
              in case lookup_colors cm (map classification df) of
                   Inl e \<Rightarrow> Inl e
                 | Inr colors \<Rightarrow>
                     (let angle = angle_column (map var_exp df)
                      in Inr (map (\<lambda>i. \<lparr>df_kappa = kappa (df ! i), df_rho = rho (df ! i),
                                          df_var_exp = var_exp (df ! i),
                                          df_var_exp_size = var_exp_size ! i,
                                          df_rho_rank = rho_rank ! i,
                                          df_kappa_rank = kappa_rank ! i,
                                          df_var_exp_rank = var_exp_rank ! i,
                                          df_classification = classification (df ! i),
                                          df_color = colors ! i,
                                          df_component = i,
                                          df_angle = angle ! i\<rparr>) [0..<n_comps]))))"

text \<open>\<open>df.sort_values(by=['classification', 'var_exp'])\<close>, then the column data source.\<close>

definition sort_values :: "frame_row list \<Rightarrow> frame_row list" where
  "sort_values rows = sort_key (\<lambda>r. (df_classification r, df_var_exp r)) rows"

definition column_data_source :: "frame_row list \<Rightarrow> comptable_cds" where
  "column_data_source rows =
     \<lparr>cds_kappa = map df_kappa rows,
      cds_rho = map df_rho rows,
      cds_varexp = map df_var_exp rows,
      cds_kappa_rank = map df_kappa_rank rows,
      cds_rho_rank = map df_rho_rank rows,
      cds_varexp_rank = map df_var_exp_rank rows,
      cds_component = map (\<lambda>r. str (df_component r)) rows,
      cds_color = map df_color rows,
      cds_size = map df_var_exp_size rows,
      cds_classif = map df_classification rows,
      cds_angle = map df_angle rows\<rparr>"

definition create_data_struct :: "(string \<rightharpoonup> string) \<Rightarrow> comp_row list \<Rightarrow> py_error + comptable_cds" where
  "create_data_struct cm df =
     (case derive_columns cm df of
        Inl e \<Rightarrow> Inl e
      | Inr rows \<Rightarrow> Inr (column_data_source (sort_values rows)))"

section \<open>The two line plots (_create_ts_plot, _create_fft_plot) and the panel\<close>

text \<open>
  Each function returns the colour of its line glyph and its column data source;
  \<open>np.max\<close> refuses an empty frequency axis. \<open>report_state\<close> is what the script hands to
  the callback before the first tap: the two plots and the empty panel.
\<close>

definition create_ts_plot :: "nat \<Rightarrow> string \<times> plot_cds" where
  "create_ts_plot n_vol =
     (''#000000'', \<lparr>plot_x = map real [0..<n_vol], plot_y = replicate n_vol (Some 0)\<rparr>)"

definition create_fft_plot :: "real list \<Rightarrow> py_error + string \<times> plot_cds" where
  "create_fft_plot freqs =
     (let Nf = length freqs
      in if freqs = [] then Inl ValueError
         else Inr (''#000000'', \<lparr>plot_x = freqs, plot_y = replicate Nf (Some 0)\<rparr>))"

definition report_state :: "nat \<Rightarrow> real list \<Rightarrow> py_error + callback_state" where
  "report_state n_vols freqs =
     (let (ts_color, plot_ts_cds) = create_ts_plot n_vols
      in case create_fft_plot freqs of
           Inl e \<Rightarrow> Inl e
         | Inr (fft_color, plot_fft_cds) \<Rightarrow>
             Inr \<lparr>source_tsplot = plot_ts_cds, source_fftplot = plot_fft_cds,
                  ts_line_color = Some ts_color, fft_line_color = Some fft_color,
                  div_text = []\<rparr>)"

section \<open>The spectra (_spectrum_data_src)\<close>

text \<open>
  The data frame that collects the spectra has an index and named columns, every column as
  long as the index; an entry \<open>None\<close> is a missing value. Assigning an array to a column
  raises when its length is not the length of the index, except that a frame whose index
  is empty takes over the index of a non-empty array.
\<close>

record data_frame =
  index_len :: nat
  columns :: "string \<rightharpoonup> real option list"

definition setitem :: "data_frame \<Rightarrow> string \<Rightarrow> real list \<Rightarrow> py_error + data_frame" where
  "setitem df cid v =
     (if index_len df = 0 \<and> v \<noteq> [] then
        Inr \<lparr>index_len = length v,
             columns = (\<lambda>k. map_option (\<lambda>_. replicate (length v) None) (columns df k))
                         (cid \<mapsto> map Some v)\<rparr>
      else if length v \<noteq> index_len df then Inl ValueError
      else Inr (df\<lparr>columns := (columns df)(cid \<mapsto> map Some v)\<rparr>))"

definition column_name :: "nat \<Rightarrow> string" where
  "column_name c = ''ica_'' @ zfill 2 (str c)"

fun spectrum_loop ::
  "(real list \<Rightarrow> real \<Rightarrow> real list \<times> real list) \<Rightarrow> (string \<rightharpoonup> real list) \<Rightarrow> real \<Rightarrow>
     nat list \<Rightarrow> data_frame \<Rightarrow> real list \<Rightarrow> py_error + data_frame \<times> real list" where
  "spectrum_loop get_spec ts_data tr [] df freqs = Inr (df, freqs)"
| "spectrum_loop get_spec ts_data tr (c # cs) df freqs =
     (let cid = column_name c
      in case ts_data cid of
           None \<Rightarrow> Inl (KeyError cid)
         | Some ts \<Rightarrow>
             (let (spectrum, freqs') = get_spec ts tr
              in case setitem df cid spectrum of
                   Inl e \<Rightarrow> Inl e
                 | Inr df' \<Rightarrow> spectrum_loop get_spec ts_data tr cs df' freqs'))"

text \<open>
  \<open>utils.get_spectrum\<close> is a parameter of the model. The column data source made from the
  frame holds the frame's columns and its index.
\<close>

definition spectrum_data_src ::
  "(real list \<Rightarrow> real \<Rightarrow> real list \<times> real list) \<Rightarrow> (string \<rightharpoonup> real list) \<Rightarrow> real \<Rightarrow>
     nat \<Rightarrow> py_error + (string \<rightharpoonup> real option list) \<times> real list" where
  "spectrum_data_src get_spec ts_data tr n_comps =
     (case ts_data ''ica_00'' of
        None \<Rightarrow> Inl (KeyError ''ica_00'')
      | Some ts0 \<Rightarrow>
          (let (spectrum, freqs) = get_spec ts0 tr;
               n_freqs = length spectrum;
               df = \<lparr>index_len = n_freqs,
                     columns = map_of (map (\<lambda>c. (column_name c, replicate n_freqs None))
                                          [0..<n_comps])\<rparr>
           in case spectrum_loop get_spec ts_data tr [0..<n_comps] df freqs of
                Inl e \<Rightarrow> Inl e
              | Inr (df', freqs') \<Rightarrow>
                  Inr ((columns df')(''index'' \<mapsto> map (\<lambda>i. Some (real i)) [0..<index_len df']),
                       freqs')))"

text \<open>Every column of a frame is as long as its index.\<close>

definition frame_ok :: "data_frame \<Rightarrow> bool" where
  "frame_ok df = (\<forall>k v. columns df k = Some v \<longrightarrow> length v = index_len df)"

text \<open>
  Modelled from the spec: \<open>utils.get_spectrum\<close> is not among the sources. The spec asks for the
  one-sided power spectrum of a series over the frequencies from zero to the Nyquist
  frequency: for \<open>n\<close> samples taken every \<open>tr\<close> seconds these are the \<open>n div 2 + 1\<close>
  frequencies \<open>k / (n * tr)\<close>, and the power at each is the squared modulus of the discrete
  Fourier transform there.
\<close>

definition get_spectrum :: "real list \<Rightarrow> real \<Rightarrow> real list \<times> real list" where
  "get_spectrum ts tr =
     (let n = length ts;
          bins = [0..<n div 2 + 1];
          re = (\<lambda>k. sum_list (map (\<lambda>j. ts ! j * cos (2 * pi * real j * real k / real n)) [0..<n]));
          im = (\<lambda>k. sum_list (map (\<lambda>j. ts ! j * sin (2 * pi * real j * real k / real n)) [0..<n]))
      in (map (\<lambda>k. (re k)\<^sup>2 + (im k)\<^sup>2) bins, map (\<lambda>k. real k / (real n * tr)) bins))"

section \<open>Binding the callback (tap_callback)\<close>

text \<open>
  Python values are objects, known by their identity, or strings. The function reads two
  names of the module: \<open>div_content\<close>, unbound until the script creates the panel, and the
  text of the script.
\<close>

datatype py_value = Obj nat | Str string

record module_globals =
  div_content :: "py_value option"
  tap_callback_jscode :: string

record custom_js =
  args :: "string \<rightharpoonup> py_value"
  code :: string

definition tap_callback ::
  "module_globals \<Rightarrow> py_value \<Rightarrow> py_value \<Rightarrow> py_value \<Rightarrow> py_value \<Rightarrow> py_value \<Rightarrow>
     py_value \<Rightarrow> py_value \<Rightarrow> py_value \<Rightarrow> py_value \<Rightarrow> py_error + custom_js" where
  "tap_callback g comptable_cds CDS_meica_ts comp_fft_cds plot_ts_cds plot_fft_cds
       ts_line_glyph fft_line_glyph div' out_dir =
     (case div_content g of
        None \<Rightarrow> Inl (NameError ''div_content'')
      | Some panel \<Rightarrow>
          Inr \<lparr>args = map_of [(''source_comp_table'', comptable_cds),
                               (''source_meica_ts'', CDS_meica_ts),
                               (''source_tsplot'', plot_ts_cds),
                               (''source_meica_fft'', comp_fft_cds),
                               (''source_fftplot'', plot_fft_cds),
                               (''div'', panel),
                               (''ts_line'', ts_line_glyph),
                               (''fft_line'', fft_line_glyph),
                               (''outdir'', out_dir)],
               code = tap_callback_jscode g\<rparr>)"

section \<open>A report with five components\<close>

text \<open>
  Five components with variance explained 40, 25, 15, 12 and 8, two accepted, two rejected
  and one ignored, three volumes each, and the objects the callback gets for them.
\<close>

definition five_components :: "comp_row list" where
  "five_components =
     [\<lparr>kappa = 80, rho = 10, var_exp = 40, normalized_variance_explained = 2 / 5,
       classification = ''accepted''\<rparr>,
      \<lparr>kappa = 20, rho = 70, var_exp = 25, normalized_variance_explained = 1 / 4,
       classification = ''rejected''\<rparr>,
      \<lparr>kappa = 60, rho = 15, var_exp = 15, normalized_variance_explained = 3 / 20,
       classification = ''accepted''\<rparr>,
      \<lparr>kappa = 10, rho = 50, var_exp = 12, normalized_variance_explained = 3 / 25,
       classification = ''rejected''\<rparr>,
      \<lparr>kappa = 30, rho = 30, var_exp = 8, normalized_variance_explained = 2 / 25,
       classification = ''ignored''\<rparr>]"

definition five_cds :: comptable_cds where
  "five_cds =
     \<lparr>cds_kappa = [60, 80, 30, 10, 20],
      cds_rho = [15, 10, 30, 50, 70],
      cds_varexp = [15, 40, 8, 12, 25],
      cds_kappa_rank = [2, 1, 3, 5, 4],
      cds_rho_rank = [4, 5, 3, 2, 1],
      cds_varexp_rank = [3, 1, 5, 4, 2],
      cds_component = [''2'', ''0'', ''4'', ''3'', ''1''],
      cds_color = [''#2ecc71'', ''#2ecc71'', ''#3498db'', ''#e74c3c'', ''#e74c3c''],
      cds_size = [15 / 2, 20, 4, 6, 25 / 2],
      cds_classif = [''accepted'', ''accepted'', ''ignored'', ''rejected'', ''rejected''],
      cds_angle = [Some (3 * pi / 10), Some (4 * pi / 5), Some (4 * pi / 25),
                   Some (6 * pi / 25), Some (pi / 2)]\<rparr>"

definition five_ts :: "string \<rightharpoonup> real list" where
  "five_ts = map_of [(''ica_00'', [1, 2, 3]), (''ica_01'', [4, 5, 6]), (''ica_02'', [7, 8, 9]),
                     (''ica_03'', [10, 11, 12]), (''ica_04'', [13, 14, 15])]"

definition five_fft :: "string \<rightharpoonup> real list" where
  "five_fft = map_of [(''ica_00'', [36, 3]), (''ica_01'', [225, 3]), (''ica_02'', [576, 3]),
                      (''ica_03'', [1089, 3]), (''ica_04'', [1764, 3])]"

definition five_args :: "nat list \<Rightarrow> callback_args" where
  "five_args idx =
     \<lparr>source_comp_table = \<lparr>data = five_cds, selected_indices = idx\<rparr>,
      source_meica_ts = five_ts, source_meica_fft = five_fft, outdir = ''out''\<rparr>"

definition five_state :: callback_state where
  "five_state =
     \<lparr>source_tsplot = \<lparr>plot_x = [0, 1, 2], plot_y = [Some 0, Some 0, Some 0]\<rparr>,
      source_fftplot = \<lparr>plot_x = [0, 1 / 6], plot_y = [Some 0, Some 0]\<rparr>,
      ts_line_color = Some ''#000000'', fft_line_color = Some ''#000000'',
      div_text = []\<rparr>"

text \<open>The state after a tap on the point of row 3, which is component 3.\<close>

definition five_selected :: callback_state where
  "five_selected =
     \<lparr>source_tsplot = \<lparr>plot_x = [0, 1, 2], plot_y = [Some 10, Some 11, Some 12]\<rparr>,
      source_fftplot = \<lparr>plot_x = [0, 1 / 6], plot_y = [Some 1089, Some 3]\<rparr>,
      ts_line_color = Some ''#e74c3c'', fft_line_color = Some ''#e74c3c'',
      div_text = image_line ''out'' ''003''\<rparr>"

text \<open>
  Series of unequal lengths: four and five samples have three frequencies each, four and
  six samples have three and four.
\<close>

definition ragged_ts :: "string \<rightharpoonup> real list" where
  "ragged_ts = map_of [(''ica_00'', [1, 2, 3, 4]), (''ica_01'', [1, 2, 3, 4, 5])]"

definition mismatched_ts :: "string \<rightharpoonup> real list" where
  "mismatched_ts = map_of [(''ica_00'', [1, 2, 3, 4]), (''ica_01'', [1, 2, 3, 4, 5, 6])]"




section \<open>What the specification asks of a rank column\<close>



section \<open>Lemmas on the string helpers and the loops\<close>

lemma split_nonempty: "split c s \<noteq> []"
  by (induction s) (auto split: list.splits)

lemma join_push: "join c ((x # l) # ls) = x # join c (l # ls)"
  by (cases ls) auto

lemma join_split: "join c (split c s) = s"
proof (induction s)
  case Nil
  show ?case by simp
next
  case (Cons x xs)
  obtain l ls where sp: "split c xs = l # ls"
    using split_nonempty [of c xs] by (cases "split c xs") auto
  show ?case
  proof (cases "x = c")
    case True
    have "join c ([] # l # ls) = c # join c (l # ls)" by simp
    then show ?thesis using True Cons sp by simp
  next
    case False
    then show ?thesis using Cons sp by (simp add: join_push)
  qed
qed

lemma length_split: "length (split c s) = Suc (length (filter (\<lambda>x. x = c) s))"
  by (induction s) (auto split: list.splits simp: split_nonempty)

lemma fold_js_set:
  "fold (\<lambda>i y. js_set y i (f i)) [0..<n] y = map f [0..<n] @ drop n y"
proof (induction n)
  case 0
  show ?case by simp
next
  case (Suc n)
  have step: "fold (\<lambda>i y. js_set y i (f i)) [0..<Suc n] y
        = js_set (map f [0..<n] @ drop n y) n (f n)"
    using Suc by simp
  show ?case
  proof (cases "n < length y")
    case True
    have "js_set (map f [0..<n] @ drop n y) n (f n) = (map f [0..<n] @ drop n y)[n := f n]"
      using True by (simp add: js_set_def)
    also have "\<dots> = map f [0..<n] @ (drop n y)[0 := f n]"
      by (simp add: list_update_append)
    also have "(drop n y)[0 := f n] = f n # drop (Suc n) y"
      using True by (simp add: Cons_nth_drop_Suc [symmetric])
    finally show ?thesis using step by simp
  next
    case False
    then show ?thesis using step by (simp add: js_set_def)
  qed
qed

lemma pad2_zfill: "pad2 s = zfill 2 s"
proof (induction s rule: pad2.induct)
  case (1 s)
  show ?case
  proof (cases "length s < 2")
    case True
    then have "pad2 s = zfill 2 (CHR ''0'' # s)"
      using 1 by (simp add: pad2.simps [of s])
    also have "\<dots> = zfill 2 s"
    proof -
      have "2 - length s = Suc (2 - Suc (length s))"
        using True by simp
      then show ?thesis
        by (simp add: zfill_def replicate_app_Cons_same)
    qed
    finally show ?thesis .
  next
    case False
    then show ?thesis by (simp add: pad2.simps [of s] zfill_def)
  qed
qed

lemma copy_loop_Some:
  assumes "length ys = length (plot_x p)"
    and "length (plot_y p) = length (plot_x p)"
  shows "copy_loop p (Some ys) = Inr (p\<lparr>plot_y := map Some ys\<rparr>)"
proof -
  have "map (js_get ys) [0..<length ys] = map Some ys"
    by (rule nth_equalityI) (simp_all add: js_get_def)
  then show ?thesis
    using assms by (simp add: copy_loop_def fold_js_set)
qed

lemma zero_loop_zeros:
  assumes "length (plot_y p) = length (plot_x p)"
  shows "zero_loop p = p\<lparr>plot_y := replicate (length (plot_x p)) (Some 0)\<rparr>"
proof -
  have "map (\<lambda>i. Some (0::real)) [0..<n] = replicate n (Some 0)" for n
    by (rule nth_equalityI) simp_all
  then show ?thesis
    using assms by (simp add: zero_loop_def fold_js_set)
qed

lemma append_line_fresh:
  assumes "length (filter (\<lambda>x. x = newline) line) < 35"
  shows "append_line [] line = line"
  using assms by (simp add: append_line_def length_split join_split)

lemma image_line_newlines:
  "length (filter (\<lambda>x. x = newline) (image_line out img))
     = Suc (length (filter (\<lambda>x. x = newline) out) + length (filter (\<lambda>x. x = newline) img))"
  by (simp add: image_line_def newline_def quote_def)

section \<open>Lemmas on the callback\<close>

lemmas five_defs = five_args_def five_state_def five_selected_def five_cds_def five_ts_def
  five_fft_def

lemmas tap_eval = tap_def Let_def gt_zero_def to_number_def index_by_def to_string_def pad2.simps
  copy_loop_def zero_loop_def js_set_def js_get_def upt_rec append_line_def image_line_def
  newline_def quote_def shift_def

lemma gt_zero_iff: "gt_zero idx \<longleftrightarrow> (\<exists>k. idx = [k] \<and> 0 < k)"
  by (auto simp: gt_zero_def to_number_def split: list.splits)

lemma tap_select:
  assumes idx: "selected_indices (source_comp_table a) = [k]" "0 < k"
    and comp: "k < length (cds_component (data (source_comp_table a)))"
    and col: "k < length (cds_color (data (source_comp_table a)))"
    and ts: "source_meica_ts a (''ica_'' @ pad2 (cds_component (data (source_comp_table a)) ! k)) = Some ys"
      "length ys = length (plot_x (source_tsplot s))"
    and fft: "source_meica_fft a (''ica_'' @ pad2 (cds_component (data (source_comp_table a)) ! k)) = Some zs"
      "length zs = length (plot_x (source_fftplot s))"
    and wf: "well_formed s"
  shows "tap a s =
     Inr (s\<lparr>source_tsplot := (source_tsplot s)\<lparr>plot_y := map Some ys\<rparr>,
            source_fftplot := (source_fftplot s)\<lparr>plot_y := map Some zs\<rparr>,
            ts_line_color := Some (cds_color (data (source_comp_table a)) ! k),
            fft_line_color := Some (cds_color (data (source_comp_table a)) ! k),
            div_text := append_line []
              (image_line (outdir a)
                 (CHR ''0'' # pad2 (cds_component (data (source_comp_table a)) ! k)))\<rparr>)"
proof -
  have gt: "gt_zero (selected_indices (source_comp_table a))"
    using idx by (simp add: gt_zero_def to_number_def)
  have sel: "to_string (index_by (cds_component (data (source_comp_table a))) [k])
             = cds_component (data (source_comp_table a)) ! k"
    using comp by (simp add: index_by_def to_string_def)
  have c: "index_by (cds_color (data (source_comp_table a))) [k]
           = Some (cds_color (data (source_comp_table a)) ! k)"
    using col by (simp add: index_by_def)
  show ?thesis
    using gt idx(1) sel c ts fft wf
    by (simp add: tap_def Let_def copy_loop_Some well_formed_def)
qed

lemma tap_select_div:
  assumes "tap a s = Inr s'" and "gt_zero (selected_indices (source_comp_table a))"
  shows "div_text s' = append_line []
           (image_line (outdir a)
              (CHR ''0'' # pad2 (to_string (index_by (cds_component (data (source_comp_table a)))
                                              (selected_indices (source_comp_table a))))))"
  using assms by (auto simp: tap_def Let_def split: sum.splits)

lemma tap_else_branch:
  assumes "\<not> gt_zero (selected_indices (source_comp_table a))"
    and "well_formed s"
  shows "tap a s =
     Inr (s\<lparr>source_tsplot :=
              (source_tsplot s)\<lparr>plot_y := replicate (length (plot_x (source_tsplot s))) (Some 0)\<rparr>,
            source_fftplot :=
              (source_fftplot s)\<lparr>plot_y := replicate (length (plot_x (source_fftplot s))) (Some 0)\<rparr>,
            ts_line_color := Some ''#000000'',
            fft_line_color := Some ''#000000'',
            div_text := [newline]\<rparr>)"
  using assms by (simp add: tap_def Let_def zero_loop_zeros well_formed_def)

lemma report_state_well_formed: "report_state n_vols freqs = Inr s \<Longrightarrow> well_formed s"
  by (auto simp: report_state_def create_ts_plot_def create_fft_plot_def well_formed_def Let_def
      split: if_splits)

lemma copy_loop_length:
  assumes "copy_loop p src = Inr p'" and "length (plot_y p) = length (plot_x p)"
  shows "length (plot_y p') = length (plot_x p')"
  using assms by (auto simp: copy_loop_def fold_js_set split: option.splits if_splits)

lemma tap_well_formed:
  assumes "tap a s = Inr s'" and "well_formed s"
  shows "well_formed s'"
proof (cases "gt_zero (selected_indices (source_comp_table a))")
  case True
  then show ?thesis
    using assms
    by (auto simp: tap_def Let_def well_formed_def split: sum.splits dest!: copy_loop_length)
next
  case False
  then show ?thesis
    using assms by (auto simp: tap_else_branch well_formed_def)
qed

lemma five_report_state: "report_state 3 [0, 1 / 6] = Inr five_state"
  by (simp add: report_state_def create_ts_plot_def create_fft_plot_def five_state_def upt_rec
      numeral_3_eq_3 numeral_2_eq_2)

lemmas create_eval = create_data_struct_def sort_values_def column_data_source_def
  derive_columns_def fit_transform_def scale_column_def handle_zeros_in_scale_def
  rank_descending_def average_rank_def color_mapping_def angle_column_def upt_rec
  str.simps digit_char_def

lemma five_create_data_struct: "create_data_struct color_mapping five_components = Inr five_cds"
  by (simp add: create_eval five_components_def five_cds_def)


lemma five_tap_row_3: "tap (five_args [3]) five_state = Inr five_selected"
  by (simp add: five_defs tap_eval)

lemma str_digits: "set (str n) \<subseteq> set ''0123456789''"
proof (induction n rule: str.induct)
  case (1 n)
  have d: "digit_char m \<in> set ''0123456789''" if "m < 10" for m
    unfolding digit_char_def using that by (intro nth_mem) simp
  show ?case
  proof (cases "n < 10")
    case True
    then show ?thesis using d [of n] by (simp add: str.simps [of n])
  next
    case False
    then show ?thesis using 1 d [of "n mod 10"] by (simp add: str.simps [of n])
  qed
qed

lemma str_no_newline: "filter (\<lambda>x. x = newline) (str n) = []"
  using str_digits [of n] by (auto simp: filter_empty_conv newline_def)

section \<open>Lemmas on the ranks\<close>









section \<open>Lemmas on the component table\<close>

lemma lookup_colors_Inr: "lookup_colors cm cs = Inr vs \<Longrightarrow> map cm cs = map Some vs"
  by (induction cs arbitrary: vs) (auto split: option.splits sum.splits)


lemma length_scale_column: "length (scale_column lo hi col) = length col"
  by (simp add: scale_column_def Let_def)




lemma map_nth_upt: "map (\<lambda>i. f (xs ! i)) [0..<length xs] = map f xs"
  by (rule nth_equalityI) simp_all

lemma map_nth_same: "length ys = n \<Longrightarrow> map (\<lambda>i. ys ! i) [0..<n] = ys"
  by (rule nth_equalityI) simp_all

lemma derive_columns_Inr:
  assumes "derive_columns cm df = Inr rows"
  shows "df \<noteq> []"
    and "map df_kappa rows = map kappa df"
    and "map df_rho rows = map rho df"
    and "map df_var_exp rows = map var_exp df"
    and "map df_var_exp_size rows = scale_column 4 20 (map var_exp df)"
    and "map df_kappa_rank rows = rank_descending (map kappa df)"
    and "map df_rho_rank rows = rank_descending (map rho df)"
    and "map df_var_exp_rank rows = rank_descending (map var_exp df)"
    and "map df_classification rows = map classification df"
    and "map cm (map classification df) = map Some (map df_color rows)"
    and "map df_component rows = [0..<length df]"
    and "map df_angle rows = angle_column (map var_exp df)"
proof -
  from assms obtain scaled colors where
    ft: "fit_transform 4 20 (map (\<lambda>r. (var_exp r, normalized_variance_explained r)) df) = Inr scaled"
    and lc: "lookup_colors cm (map classification df) = Inr colors"
    and rows: "rows = map (\<lambda>i. \<lparr>df_kappa = kappa (df ! i), df_rho = rho (df ! i),
                                          df_var_exp = var_exp (df ! i),
                                          df_var_exp_size = map fst scaled ! i,
                                          df_rho_rank = rank_descending (map rho df) ! i,
                                          df_kappa_rank = rank_descending (map kappa df) ! i,
                                          df_var_exp_rank = rank_descending (map var_exp df) ! i,
                                          df_classification = classification (df ! i),
                                          df_color = colors ! i,
                                          df_component = i,
                                          df_angle = angle_column (map var_exp df) ! i\<rparr>) [0..<length df]"
    by (auto simp: derive_columns_def Let_def split: sum.splits)
  from ft show ne: "df \<noteq> []"
    by (auto simp: fit_transform_def split: if_splits)
  from ft have sc: "map fst scaled = scale_column 4 20 (map var_exp df)"
    by (auto simp: fit_transform_def length_scale_column comp_def split: if_splits)
  have lcol: "length colors = length df"
    using lookup_colors_Inr [OF lc] by (metis length_map)
  show "map df_kappa rows = map kappa df"
    by (simp add: rows comp_def map_nth_upt)
  show "map df_rho rows = map rho df"
    by (simp add: rows comp_def map_nth_upt)
  show "map df_var_exp rows = map var_exp df"
    by (simp add: rows comp_def map_nth_upt)
  show "map df_var_exp_size rows = scale_column 4 20 (map var_exp df)"
    by (simp add: rows comp_def sc map_nth_same length_scale_column)
  show "map df_kappa_rank rows = rank_descending (map kappa df)"
    by (simp add: rows comp_def map_nth_same rank_descending_def)
  show "map df_rho_rank rows = rank_descending (map rho df)"
    by (simp add: rows comp_def map_nth_same rank_descending_def)
  show "map df_var_exp_rank rows = rank_descending (map var_exp df)"
    by (simp add: rows comp_def map_nth_same rank_descending_def)
  show "map df_classification rows = map classification df"
    by (simp add: rows comp_def map_nth_upt)
  have "map df_color rows = colors"
    by (simp add: rows comp_def map_nth_same lcol)
  then show "map cm (map classification df) = map Some (map df_color rows)"
    using lookup_colors_Inr [OF lc] by simp
  show "map df_component rows = [0..<length df]"
    by (simp add: rows comp_def)
  show "map df_angle rows = angle_column (map var_exp df)"
    by (simp add: rows comp_def map_nth_same angle_column_def Let_def)
qed



lemma create_data_struct_Inr:
  assumes "create_data_struct cm df = Inr cds"
  shows "\<exists>rows. derive_columns cm df = Inr rows \<and> cds = column_data_source (sort_values rows)"
  using assms by (auto simp: create_data_struct_def split: sum.splits)

lemma mset_sort_values: "mset (sort_values rows) = mset rows"
  by (simp add: sort_values_def)

lemma mset_map_sort_values: "mset (map f (sort_values rows)) = mset (map f rows)"
  by (simp add: mset_sort_values)

lemma set_sort_values: "set (sort_values rows) = set rows"
  by (simp add: sort_values_def)

lemma column_pointwise:
  assumes "map f rows = map g (map h rows)" and "r \<in> set rows"
  shows "f r = g (h r)"
  using assms by (induction rows) auto






section \<open>Lemmas on the spectra\<close>

lemma setitem_frame_ok:
  assumes "setitem df cid v = Inr df'" and "frame_ok df"
  shows "frame_ok df'"
  using assms by (auto simp: setitem_def frame_ok_def split: if_splits)

lemma setitem_nonempty:
  assumes "index_len df \<noteq> 0"
  shows "setitem df cid v =
           (if length v \<noteq> index_len df then Inl ValueError
            else Inr (df\<lparr>columns := (columns df)(cid \<mapsto> map Some v)\<rparr>))"
  using assms by (simp add: setitem_def)

lemma spectrum_loop_frame_ok:
  assumes "spectrum_loop gs ts_data tr cs df freqs = Inr (df', freqs')" and "frame_ok df"
  shows "frame_ok df'"
  using assms
proof (induction cs arbitrary: df freqs)
  case Nil
  then show ?case by simp
next
  case (Cons c cs)
  then show ?case
    by (auto simp: Let_def split: option.splits prod.splits sum.splits
        dest: setitem_frame_ok)
qed

lemma spectrum_loop_cases:
  assumes "index_len df \<noteq> 0" and "\<forall>c\<in>set cs. ts_data (column_name c) \<noteq> None"
  shows "if \<exists>c\<in>set cs. length (fst (gs (the (ts_data (column_name c))) tr)) \<noteq> index_len df
         then spectrum_loop gs ts_data tr cs df freqs = Inl ValueError
         else \<exists>df' freqs'. spectrum_loop gs ts_data tr cs df freqs = Inr (df', freqs')
                \<and> index_len df' = index_len df
                \<and> (\<forall>k. columns df k \<noteq> None \<longrightarrow> columns df' k \<noteq> None)
                \<and> (\<forall>c\<in>set cs. columns df' (column_name c) \<noteq> None)"
  using assms
proof (induction cs arbitrary: df freqs)
  case Nil
  then show ?case by simp
next
  case (Cons c cs)
  obtain ts where ts: "ts_data (column_name c) = Some ts"
    using Cons.prems(2) by auto
  obtain spectrum fr where g: "gs ts tr = (spectrum, fr)"
    by (cases "gs ts tr")
  show ?case
  proof (cases "length spectrum = index_len df")
    case False
    then show ?thesis
      using ts g Cons.prems(1) by (simp add: setitem_nonempty)
  next
    case True
    define df1 where "df1 = df\<lparr>columns := (columns df)(column_name c \<mapsto> map Some spectrum)\<rparr>"
    have step: "spectrum_loop gs ts_data tr (c # cs) df freqs = spectrum_loop gs ts_data tr cs df1 fr"
      using ts g True Cons.prems(1) by (simp add: setitem_nonempty df1_def)
    have i1: "index_len df1 = index_len df"
      by (simp add: df1_def)
    have p1: "index_len df1 \<noteq> 0" "\<forall>c\<in>set cs. ts_data (column_name c) \<noteq> None"
      using Cons.prems by (simp_all add: i1)
    note IH = Cons.IH [OF p1, of fr]
    show ?thesis
    proof (cases "\<exists>c\<in>set cs. length (fst (gs (the (ts_data (column_name c))) tr)) \<noteq> index_len df")
      case bad: True
      then have "spectrum_loop gs ts_data tr cs df1 fr = Inl ValueError"
        using IH by (simp add: i1)
      then show ?thesis
        using bad step by simp
    next
      case good: False
      then obtain df' freqs' where r: "spectrum_loop gs ts_data tr cs df1 fr = Inr (df', freqs')"
        "index_len df' = index_len df1"
        "\<forall>k. columns df1 k \<noteq> None \<longrightarrow> columns df' k \<noteq> None"
        "\<forall>c\<in>set cs. columns df' (column_name c) \<noteq> None"
        using IH by (auto simp: i1)
      have "columns df1 (column_name c) \<noteq> None"
        by (simp add: df1_def)
      then have here: "columns df' (column_name c) \<noteq> None"
        using r(3) by blast
      have keep: "\<forall>k. columns df k \<noteq> None \<longrightarrow> columns df' k \<noteq> None"
        using r(3) by (auto simp: df1_def)
      have "\<not> (\<exists>c\<in>set (c # cs). length (fst (gs (the (ts_data (column_name c))) tr)) \<noteq> index_len df)"
        using good True ts g by simp
      then show ?thesis
        using step r(1,2,4) here keep i1 by simp
    qed
  qed
qed

lemma length_get_spectrum: "length (fst (get_spectrum ts tr)) = length ts div 2 + 1"
  by (simp add: get_spectrum_def Let_def)

lemma initial_frame_ok:
  "frame_ok \<lparr>index_len = m,
             columns = map_of (map (\<lambda>c. (column_name c, replicate m None)) [0..<n])\<rparr>"
  by (auto simp: frame_ok_def dest!: map_of_SomeD)

lemma spectrum_data_src_lengths:
  assumes "spectrum_data_src gs ts_data tr n = Inr (cds, freqs)"
  shows "\<exists>m. \<forall>k v. cds k = Some v \<longrightarrow> length v = m"
proof -
  from assms obtain ts0 where t0: "ts_data ''ica_00'' = Some ts0"
    by (auto simp: spectrum_data_src_def split: option.splits)
  obtain sp0 fr0 where g0: "gs ts0 tr = (sp0, fr0)"
    by (cases "gs ts0 tr")
  define df0 where "df0 = \<lparr>index_len = length sp0,
      columns = map_of (map (\<lambda>c. (column_name c, replicate (length sp0) None)) [0..<n])\<rparr>"
  from assms obtain df' where
    l: "spectrum_loop gs ts_data tr [0..<n] df0 fr0 = Inr (df', freqs)"
    and c: "cds = (columns df')(''index'' \<mapsto> map (\<lambda>i. Some (real i)) [0..<index_len df'])"
    by (auto simp: spectrum_data_src_def t0 g0 df0_def Let_def split: sum.splits)
  have "frame_ok df0"
    unfolding df0_def by (rule initial_frame_ok)
  then have "frame_ok df'"
    by (rule spectrum_loop_frame_ok [OF l])
  then have "\<forall>k v. cds k = Some v \<longrightarrow> length v = index_len df'"
    by (auto simp: c frame_ok_def)
  then show ?thesis ..
qed

lemma spectrum_data_src_cases:
  assumes t0: "ts_data ''ica_00'' = Some ts0" and ne: "fst (gs ts0 tr) \<noteq> []"
    and keys: "\<forall>c<n. ts_data (column_name c) \<noteq> None"
  shows "if \<exists>c<n. length (fst (gs (the (ts_data (column_name c))) tr)) \<noteq> length (fst (gs ts0 tr))
         then spectrum_data_src gs ts_data tr n = Inl ValueError
         else \<exists>cds freqs. spectrum_data_src gs ts_data tr n = Inr (cds, freqs)
                \<and> (\<forall>k v. cds k = Some v \<longrightarrow> length v = length (fst (gs ts0 tr)))
                \<and> (\<forall>c<n. cds (column_name c) \<noteq> None)"
proof -
  obtain sp0 fr0 where g0: "gs ts0 tr = (sp0, fr0)"
    by (cases "gs ts0 tr")
  define df0 where "df0 = \<lparr>index_len = length sp0,
      columns = map_of (map (\<lambda>c. (column_name c, replicate (length sp0) None)) [0..<n])\<rparr>"
  have i0: "index_len df0 = length sp0" "index_len df0 \<noteq> 0"
    using ne g0 by (simp_all add: df0_def)
  have k: "\<forall>c\<in>set [0..<n]. ts_data (column_name c) \<noteq> None"
    using keys by simp
  have src: "spectrum_data_src gs ts_data tr n =
      (case spectrum_loop gs ts_data tr [0..<n] df0 fr0 of
         Inl e \<Rightarrow> Inl e
       | Inr (df', freqs') \<Rightarrow>
           Inr ((columns df')(''index'' \<mapsto> map (\<lambda>i. Some (real i)) [0..<index_len df']), freqs'))"
    by (simp add: spectrum_data_src_def t0 g0 df0_def Let_def)
  note lc = spectrum_loop_cases [OF i0(2) k, of gs tr fr0]
  have f0: "frame_ok df0"
    unfolding df0_def by (rule initial_frame_ok)
  show ?thesis
  proof (cases "\<exists>c<n. length (fst (gs (the (ts_data (column_name c))) tr)) \<noteq> length (fst (gs ts0 tr))")
    case True
    then have "\<exists>c\<in>set [0..<n]. length (fst (gs (the (ts_data (column_name c))) tr)) \<noteq> index_len df0"
      by (auto simp: i0 g0)
    then have "spectrum_loop gs ts_data tr [0..<n] df0 fr0 = Inl ValueError"
      using lc by simp
    then show ?thesis
      using True by (simp add: src)
  next
    case False
    then have "\<not> (\<exists>c\<in>set [0..<n]. length (fst (gs (the (ts_data (column_name c))) tr)) \<noteq> index_len df0)"
      by (auto simp: i0 g0)
    then obtain df' freqs' where r: "spectrum_loop gs ts_data tr [0..<n] df0 fr0 = Inr (df', freqs')"
      "index_len df' = index_len df0"
      "\<forall>c\<in>set [0..<n]. columns df' (column_name c) \<noteq> None"
      using lc by auto
    have "frame_ok df'"
      using f0 by (rule spectrum_loop_frame_ok [OF r(1)])
    then have a: "\<forall>k v. ((columns df')(''index'' \<mapsto> map (\<lambda>i. Some (real i)) [0..<index_len df'])) k
        = Some v \<longrightarrow> length v = length (fst (gs ts0 tr))"
      by (auto simp: frame_ok_def r(2) i0 g0)
    have b: "\<forall>c<n. ((columns df')(''index'' \<mapsto> map (\<lambda>i. Some (real i)) [0..<index_len df']))
        (column_name c) \<noteq> None"
      using r(3) by simp
    show ?thesis
      using False a b by (simp add: src r(1))
  qed
qed

lemma get_spectrum_nonempty: "fst (get_spectrum ts tr) \<noteq> []"
  using length_get_spectrum [of ts tr] by (cases "fst (get_spectrum ts tr)") simp_all

lemma list_all_upt: "list_all P [0..<n] \<longleftrightarrow> (\<forall>c<n. P c)"
  by (auto simp: list_all_iff)

lemmas name_eval = column_name_def zfill_def str.simps digit_char_def upt_rec

section \<open>The tap callback: what a tap does\<close>

text \<open>
  C1. A tap on a point of a valid component shows that component: the two traces take its
  stored series and spectrum and the two lines take its colour. The script tests
  \<open>selected_idx > 0\<close>, so this holds for the rows 1, 2, \<dots> of the table (lemma
  \<open>tap_select\<close>) and fails for row 0. In the report with five components row 0 is
  component 2, with series 7, 8, 9, spectrum 576, 3 and colour #2ecc71; with component 3
  showing, a tap on the point of component 2 takes the branch for "no component has been
  selected": both traces become zero, both lines black, and the panel is blanked.
\<close>

theorem tap_first_row_deselects:
  "tap (five_args [0]) five_selected = Inr (five_state\<lparr>div_text := [newline]\<rparr>)
   \<and> cds_component five_cds ! 0 = ''2'' \<and> five_ts ''ica_02'' = Some [7, 8, 9]
   \<and> five_fft ''ica_02'' = Some [576, 3] \<and> cds_color five_cds ! 0 = ''#2ecc71''"
  by (simp add: five_defs tap_eval)

text \<open>
  C2, as stated: a tap that selects a component appends its image line to what the panel
  holds. It does not: with the line of component 3 in the panel, a tap on component 1
  (row 4) leaves only the line of component 1 there, not the two lines one after the
  other.
\<close>

theorem tap_discards_history:
  "div_text five_selected = image_line ''out'' ''003''
   \<and> map_sum id div_text (tap (five_args [4]) five_selected) = Inr (image_line ''out'' ''001'')
   \<and> image_line ''out'' ''001''
       \<noteq> append_line (div_text five_selected) (image_line ''out'' ''001'')"
  by (simp add: five_defs tap_eval)

text \<open>
  C2, amended: a tap that selects a component empties the panel first, so the panel then
  holds what appending the component's image line to the empty text gives, whatever it
  held before; this is the image line itself when the line has fewer than 35 line breaks
  (it has one unless the output directory's name contains line breaks). No earlier entry
  is kept, and the bound of 35 lines only ever cuts into that one entry.
\<close>

theorem tap_select_replaces_panel:
  assumes "tap a s = Inr s'" and "gt_zero (selected_indices (source_comp_table a))"
  defines "line \<equiv> image_line (outdir a)
      (CHR ''0'' # pad2 (to_string (index_by (cds_component (data (source_comp_table a)))
                                      (selected_indices (source_comp_table a)))))"
  shows "div_text s' = append_line [] line
         \<and> (length (filter (\<lambda>x. x = newline) line) < 35 \<longrightarrow> div_text s' = line)"
  using tap_select_div [OF assms(1,2)] by (simp add: line_def append_line_fresh)

theorem tap_select_replaces_panel_witness:
  "tap (five_args [4]) five_selected
     = Inr (five_selected\<lparr>source_tsplot := \<lparr>plot_x = [0, 1, 2], plot_y = [Some 4, Some 5, Some 6]\<rparr>,
                          source_fftplot := \<lparr>plot_x = [0, 1 / 6], plot_y = [Some 225, Some 3]\<rparr>,
                          div_text := image_line ''out'' ''001''\<rparr>)
   \<and> gt_zero (selected_indices (source_comp_table (five_args [4])))
   \<and> length (filter (\<lambda>x. x = newline) (image_line ''out'' ''001'')) < 35
   \<and> div_text (five_selected\<lparr>source_tsplot := \<lparr>plot_x = [0, 1, 2], plot_y = [Some 4, Some 5, Some 6]\<rparr>,
                          source_fftplot := \<lparr>plot_x = [0, 1 / 6], plot_y = [Some 225, Some 3]\<rparr>,
                          div_text := image_line ''out'' ''001''\<rparr>) = image_line ''out'' ''001''"
proof -
  have t: "tap (five_args [4]) five_selected
     = Inr (five_selected\<lparr>source_tsplot := \<lparr>plot_x = [0, 1, 2], plot_y = [Some 4, Some 5, Some 6]\<rparr>,
                          source_fftplot := \<lparr>plot_x = [0, 1 / 6], plot_y = [Some 225, Some 3]\<rparr>,
                          div_text := image_line ''out'' ''001''\<rparr>)"
    by (simp add: five_defs tap_eval)
  have g: "gt_zero (selected_indices (source_comp_table (five_args [4])))"
    by (simp add: five_args_def gt_zero_def to_number_def)
  have n: "length (filter (\<lambda>x. x = newline) (image_line ''out'' ''001'')) < 35"
    by (simp add: image_line_def newline_def quote_def)
  show ?thesis
    using tap_select_replaces_panel [OF t g] t g n by simp
qed

text \<open>
  C4. When the selection is not a single row above row 0 (in particular when the tap hit
  no point and the selection is empty), the callback runs from any well-formed state, sets
  every y-value of the time-series trace and of the spectrum trace to zero, leaves the
  x-values alone, makes both lines black (#000000), and clears the panel: its text is a
  lone line break, that is, two empty lines and no image.
\<close>

theorem tap_deselect_resets:
  assumes "\<not> gt_zero (selected_indices (source_comp_table a))" and "well_formed s"
  shows "\<exists>s'. tap a s = Inr s'
           \<and> plot_y (source_tsplot s') = replicate (length (plot_x (source_tsplot s'))) (Some 0)
           \<and> plot_y (source_fftplot s') = replicate (length (plot_x (source_fftplot s'))) (Some 0)
           \<and> plot_x (source_tsplot s') = plot_x (source_tsplot s)
           \<and> plot_x (source_fftplot s') = plot_x (source_fftplot s)
           \<and> ts_line_color s' = Some ''#000000''
           \<and> fft_line_color s' = Some ''#000000''
           \<and> div_text s' = [newline]
           \<and> split newline (div_text s') = [[], []]"
  using tap_else_branch [OF assms] by simp

theorem tap_deselect_resets_witness:
  "\<not> gt_zero (selected_indices (source_comp_table (five_args [])))
   \<and> well_formed five_selected
   \<and> tap (five_args []) five_selected = Inr (five_state\<lparr>div_text := [newline]\<rparr>)"
proof -
  have g: "\<not> gt_zero (selected_indices (source_comp_table (five_args [])))"
    by (simp add: five_args_def gt_zero_def to_number_def)
  have w: "well_formed five_selected"
    by (simp add: well_formed_def five_selected_def)
  have t: "tap (five_args []) five_selected = Inr (five_state\<lparr>div_text := [newline]\<rparr>)"
    by (simp add: five_defs tap_eval)
  show ?thesis
    using tap_deselect_resets [OF g w] g w t by simp
qed

text \<open>
  C9. When a tap selects row \<open>k > 0\<close> and that row holds component \<open>n\<close> (the component
  column holds the decimal text of the component numbers), the panel holds the image line
  whose file name is \<open>comp_\<close>, then a \<open>0\<close>, then the number padded with zeros to two
  digits, then \<open>.png\<close>; for component 3 the reference ends in \<open>comp_003.png\<close>, as in the
  report with five components, where component 3 is row 3. The output directory's name
  is taken to have no line break.
\<close>

theorem tap_select_image_name:
  assumes "tap a s = Inr s'"
    and "selected_indices (source_comp_table a) = [k]" and "0 < k"
    and "k < length (cds_component (data (source_comp_table a)))"
    and "cds_component (data (source_comp_table a)) ! k = str n"
    and "newline \<notin> set (outdir a)"
  shows "div_text s' = image_line (outdir a) (CHR ''0'' # zfill 2 (str n))
         \<and> (n = 3 \<longrightarrow> div_text s' =
               ''<span><img src='' @ [quote] @ outdir a @ ''/figures/comp_003.png'' @ [quote]
                 @ '' alt='' @ [quote] @ ''Component Map'' @ [quote]
                 @ '' height=1000 width=900><span>'' @ [newline])"
proof -
  have g: "gt_zero (selected_indices (source_comp_table a))"
    using assms(2,3) by (simp add: gt_zero_iff)
  have sel: "to_string (index_by (cds_component (data (source_comp_table a)))
                          (selected_indices (source_comp_table a))) = str n"
    using assms(2,4,5) by (simp add: index_by_def to_string_def)
  have o: "filter (\<lambda>x. x = newline) (outdir a) = []"
    using assms(6) by (auto simp: filter_empty_conv)
  have "length (filter (\<lambda>x. x = newline) (image_line (outdir a) (CHR ''0'' # zfill 2 (str n)))) < 35"
    by (simp add: image_line_newlines o zfill_def str_no_newline) (simp add: newline_def)
  then have d: "div_text s' = image_line (outdir a) (CHR ''0'' # zfill 2 (str n))"
    using tap_select_div [OF assms(1) g] by (simp add: sel pad2_zfill append_line_fresh)
  have "zfill 2 (str 3) = ''03''"
    by (simp add: zfill_def str.simps digit_char_def)
  then show ?thesis
    using d by (simp add: image_line_def)
qed

theorem tap_select_image_name_witness:
  "tap (five_args [3]) five_state = Inr five_selected
   \<and> selected_indices (source_comp_table (five_args [3])) = [3] \<and> (0::nat) < 3
   \<and> 3 < length (cds_component (data (source_comp_table (five_args [3]))))
   \<and> cds_component (data (source_comp_table (five_args [3]))) ! 3 = str 3
   \<and> newline \<notin> set (outdir (five_args [3]))
   \<and> div_text five_selected =
        ''<span><img src='' @ [quote] @ ''out/figures/comp_003.png'' @ [quote]
          @ '' alt='' @ [quote] @ ''Component Map'' @ [quote]
          @ '' height=1000 width=900><span>'' @ [newline]"
proof -
  have i: "selected_indices (source_comp_table (five_args [3])) = [3]"
    by (simp add: five_args_def)
  have p: "(0::nat) < 3" by simp
  have l: "3 < length (cds_component (data (source_comp_table (five_args [3]))))"
    by (simp add: five_args_def five_cds_def)
  have c: "cds_component (data (source_comp_table (five_args [3]))) ! 3 = str 3"
    by (simp add: five_args_def five_cds_def str.simps digit_char_def)
  have o: "newline \<notin> set (outdir (five_args [3]))"
    by (simp add: five_args_def newline_def)
  note r = tap_select_image_name [OF five_tap_row_3 i p l c o, THEN conjunct2, THEN mp, OF refl]
  have d: "div_text five_selected =
        ''<span><img src='' @ [quote] @ ''out/figures/comp_003.png'' @ [quote]
          @ '' alt='' @ [quote] @ ''Component Map'' @ [quote]
          @ '' height=1000 width=900><span>'' @ [newline]"
    using r by (simp add: five_args_def)
  show ?thesis
    by (intro conjI five_tap_row_3 i p l c o d)
qed

text \<open>
  C10. The callback object that \<open>tap_callback\<close> builds does not depend on the argument
  \<open>div\<close>: two calls that differ in it alone give the same result, and the panel bound
  under the name \<open>div\<close> is the module's \<open>div_content\<close> (a call made before the module
  has bound that name raises NameError).
\<close>

theorem tap_callback_ignores_div:
  "tap_callback g comptable_cds CDS_meica_ts comp_fft_cds plot_ts_cds plot_fft_cds
       ts_line_glyph fft_line_glyph d1 out_dir
   = tap_callback g comptable_cds CDS_meica_ts comp_fft_cds plot_ts_cds plot_fft_cds
       ts_line_glyph fft_line_glyph d2 out_dir
   \<and> map_sum id (\<lambda>js. args js ''div'')
        (tap_callback g comptable_cds CDS_meica_ts comp_fft_cds plot_ts_cds plot_fft_cds
           ts_line_glyph fft_line_glyph d1 out_dir)
     = (case div_content g of
          None \<Rightarrow> Inl (NameError ''div_content'')
        | Some panel \<Rightarrow> Inr (Some panel))"
  by (simp add: tap_callback_def split: option.splits)

section \<open>The component table: ranks, colours, sizes and angles\<close>








text \<open>
  C8. For every table that \<open>create_data_struct\<close> accepts and whose variance explained has
  a positive total, the angle of each record is its share of the total times \<open>2 * pi\<close>,
  and the angles sum to \<open>2 * pi\<close> (in real arithmetic).
\<close>

theorem angles_sum_to_full_turn:
  assumes "create_data_struct cm df = Inr cds" and "0 < sum_list (map var_exp df)"
  shows "cds_angle cds = map (\<lambda>x. Some (x / sum_list (map var_exp df) * 2 * pi)) (cds_varexp cds)
       \<and> sum_list (map the (cds_angle cds)) = 2 * pi
       \<and> sum_list (cds_varexp cds) = sum_list (map var_exp df)
       \<and> length (cds_angle cds) = length df"
proof -
  define total where "total = sum_list (map var_exp df)"
  from create_data_struct_Inr [OF assms(1)] obtain rows where
    dc: "derive_columns cm df = Inr rows" and cds: "cds = column_data_source (sort_values rows)"
    by blast
  note c = derive_columns_Inr [OF dc]
  have t: "total \<noteq> 0"
    using assms(2) by (simp add: total_def)
  have "map df_angle rows = map (\<lambda>x. Some (x / total * 2 * pi)) (map df_var_exp rows)"
    using t by (simp add: c(12) c(4) angle_column_def Let_def total_def)
  then have pw: "df_angle r = Some (df_var_exp r / total * 2 * pi)" if "r \<in> set rows" for r
    using that by (rule column_pointwise)
  have a: "cds_angle cds = map (\<lambda>x. Some (x / total * 2 * pi)) (cds_varexp cds)"
    by (simp add: cds column_data_source_def set_sort_values pw)
  have "cds_varexp cds = map df_var_exp (sort_values rows)"
    by (simp add: cds column_data_source_def)
  then have "mset (cds_varexp cds) = mset (map df_var_exp rows)"
    by (simp only: mset_map_sort_values)
  then have "mset (cds_varexp cds) = mset (map var_exp df)"
    by (simp only: c(4))
  then have s: "sum_list (cds_varexp cds) = total"
    unfolding total_def by (metis sum_mset_sum_list)
  have "sum_list (map the (cds_angle cds)) = sum_list (map (\<lambda>x. x * (2 * pi / total)) (cds_varexp cds))"
    by (simp add: a comp_def mult.assoc)
  also have "\<dots> = sum_list (cds_varexp cds) * (2 * pi / total)"
    using sum_list_mult_const [of "\<lambda>x. x" "2 * pi / total" "cds_varexp cds"] by simp
  also have "\<dots> = 2 * pi"
    using t by (simp add: s)
  finally have f: "sum_list (map the (cds_angle cds)) = 2 * pi" .
  have "length (cds_angle cds) = length (map df_var_exp rows)"
    by (simp add: cds column_data_source_def sort_values_def)
  then have l: "length (cds_angle cds) = length df"
    by (simp only: c(4) length_map)
  show ?thesis
    using a f s l by (simp add: total_def)
qed

theorem angles_sum_to_full_turn_witness:
  "create_data_struct color_mapping five_components = Inr five_cds
   \<and> (0::real) < sum_list (map var_exp five_components)
   \<and> sum_list (map the (cds_angle five_cds)) = 2 * pi
   \<and> cds_angle five_cds = [Some (3 * pi / 10), Some (4 * pi / 5), Some (4 * pi / 25),
                             Some (6 * pi / 25), Some (pi / 2)]"
proof -
  have p: "(0::real) < sum_list (map var_exp five_components)"
    by (simp add: five_components_def)
  have s: "sum_list (map the (cds_angle five_cds)) = 2 * pi"
    using angles_sum_to_full_turn [OF five_create_data_struct p] by blast
  have a: "cds_angle five_cds = [Some (3 * pi / 10), Some (4 * pi / 5), Some (4 * pi / 25),
                             Some (6 * pi / 25), Some (pi / 2)]"
    by (simp add: five_cds_def)
  show ?thesis
    by (intro conjI five_create_data_struct p s a)
qed

section \<open>The spectra: one number of frequencies for all components\<close>

text \<open>
  C7, as stated: series of unequal lengths make the estimator fail. They need not: the
  function never compares the lengths of the series. With a one-sided spectrum, series of
  four and of five samples both have three frequencies, and the estimator accepts them.
\<close>

theorem ragged_series_accepted:
  "ragged_ts ''ica_00'' = Some [1, 2, 3, 4] \<and> ragged_ts ''ica_01'' = Some [1, 2, 3, 4, 5]
   \<and> \<not> isl (spectrum_data_src get_spectrum ragged_ts 2 2)"
proof -
  have t0: "ragged_ts ''ica_00'' = Some [1, 2, 3, 4]"
    and t1: "ragged_ts ''ica_01'' = Some [1, 2, 3, 4, 5]"
    by (simp_all add: ragged_ts_def)
  have "list_all (\<lambda>c. ragged_ts (column_name c) \<noteq> None) [0..<2]"
    by (simp add: name_eval ragged_ts_def)
  then have keys: "\<forall>c<2. ragged_ts (column_name c) \<noteq> None"
    by (simp only: list_all_upt)
  have "list_all (\<lambda>c. length (fst (get_spectrum (the (ragged_ts (column_name c))) 2))
                        = length (fst (get_spectrum [1, 2, 3, 4] 2))) [0..<2]"
    by (simp add: name_eval ragged_ts_def length_get_spectrum)
  then have same: "\<not> (\<exists>c<2. length (fst (get_spectrum (the (ragged_ts (column_name c))) 2))
                        \<noteq> length (fst (get_spectrum [1, 2, 3, 4] 2)))"
    by (simp only: list_all_upt) blast
  have "\<exists>cds freqs. spectrum_data_src get_spectrum ragged_ts 2 2 = Inr (cds, freqs)"
    using spectrum_data_src_cases [where gs = get_spectrum and tr = 2, OF t0 get_spectrum_nonempty keys]
      same by auto
  then have "\<not> isl (spectrum_data_src get_spectrum ragged_ts 2 2)"
    by auto
  then show ?thesis
    using t0 t1 by simp
qed

text \<open>
  C7, amended: whenever \<open>_spectrum_data_src\<close> returns, all columns of the table it returns
  have one length. When every component has its series and the spectrum of component 0 is
  not empty, the function fails, with the ValueError of the column assignment (the
  data-format error of the specification), exactly when the spectrum of some component
  has a number of frequencies other than that of component 0; otherwise it returns a
  table with a column for every component, each of that length. Whether series of
  unequal lengths are refused therefore depends on \<open>get_spectrum\<close> alone: they are when it
  gives them different numbers of frequencies.
\<close>

theorem spectrum_bins:
  "(\<forall>cds freqs. spectrum_data_src gs ts_data tr n = Inr (cds, freqs) \<longrightarrow>
       (\<exists>m. \<forall>k v. cds k = Some v \<longrightarrow> length v = m))
   \<and> (ts_data ''ica_00'' = Some ts0 \<and> fst (gs ts0 tr) \<noteq> []
        \<and> (\<forall>c<n. ts_data (column_name c) \<noteq> None) \<longrightarrow>
       (if \<exists>c<n. length (fst (gs (the (ts_data (column_name c))) tr)) \<noteq> length (fst (gs ts0 tr))
        then spectrum_data_src gs ts_data tr n = Inl ValueError
        else \<exists>cds freqs. spectrum_data_src gs ts_data tr n = Inr (cds, freqs)
               \<and> (\<forall>k v. cds k = Some v \<longrightarrow> length v = length (fst (gs ts0 tr)))
               \<and> (\<forall>c<n. cds (column_name c) \<noteq> None)))"
proof (intro conjI allI impI)
  fix cds freqs
  assume "spectrum_data_src gs ts_data tr n = Inr (cds, freqs)"
  then show "\<exists>m. \<forall>k v. cds k = Some v \<longrightarrow> length v = m"
    by (rule spectrum_data_src_lengths)
next
  assume a: "ts_data ''ica_00'' = Some ts0 \<and> fst (gs ts0 tr) \<noteq> []
        \<and> (\<forall>c<n. ts_data (column_name c) \<noteq> None)"
  show "if \<exists>c<n. length (fst (gs (the (ts_data (column_name c))) tr)) \<noteq> length (fst (gs ts0 tr))
        then spectrum_data_src gs ts_data tr n = Inl ValueError
        else \<exists>cds freqs. spectrum_data_src gs ts_data tr n = Inr (cds, freqs)
               \<and> (\<forall>k v. cds k = Some v \<longrightarrow> length v = length (fst (gs ts0 tr)))
               \<and> (\<forall>c<n. cds (column_name c) \<noteq> None)"
    using a by (intro spectrum_data_src_cases) simp_all
qed

theorem spectrum_bins_witness:
  "five_ts ''ica_00'' = Some [1, 2, 3]
   \<and> fst (get_spectrum [1, 2, 3] 2) \<noteq> []
   \<and> list_all (\<lambda>c. five_ts (column_name c) \<noteq> None) [0..<5]
   \<and> list_all (\<lambda>c. length (fst (get_spectrum (the (five_ts (column_name c))) 2))
                      = length (fst (get_spectrum [1, 2, 3] 2))) [0..<5]
   \<and> \<not> isl (spectrum_data_src get_spectrum five_ts 2 5)
   \<and> mismatched_ts ''ica_00'' = Some [1, 2, 3, 4]
   \<and> fst (get_spectrum [1, 2, 3, 4] 2) \<noteq> []
   \<and> list_all (\<lambda>c. mismatched_ts (column_name c) \<noteq> None) [0..<2]
   \<and> length (fst (get_spectrum (the (mismatched_ts (column_name 1))) 2))
       \<noteq> length (fst (get_spectrum [1, 2, 3, 4] 2))
   \<and> spectrum_data_src get_spectrum mismatched_ts 2 2 = Inl ValueError"
proof -
  have t0: "five_ts ''ica_00'' = Some [1, 2, 3]"
    by (simp add: five_ts_def)
  have k: "list_all (\<lambda>c. five_ts (column_name c) \<noteq> None) [0..<5]"
    by (simp add: name_eval five_ts_def)
  have s: "list_all (\<lambda>c. length (fst (get_spectrum (the (five_ts (column_name c))) 2))
                      = length (fst (get_spectrum [1, 2, 3] 2))) [0..<5]"
    by (simp add: name_eval five_ts_def length_get_spectrum)
  have h: "five_ts ''ica_00'' = Some [1, 2, 3] \<and> fst (get_spectrum [1, 2, 3] 2) \<noteq> []
        \<and> (\<forall>c<5. five_ts (column_name c) \<noteq> None)"
    using t0 k get_spectrum_nonempty by (simp only: list_all_upt) simp
  have same: "\<not> (\<exists>c<5. length (fst (get_spectrum (the (five_ts (column_name c))) 2))
                        \<noteq> length (fst (get_spectrum [1, 2, 3] 2)))"
    using s by (simp only: list_all_upt) blast
  have "\<exists>cds freqs. spectrum_data_src get_spectrum five_ts 2 5 = Inr (cds, freqs)"
    using spectrum_bins [of get_spectrum five_ts 2 5 "[1, 2, 3]", THEN conjunct2, rule_format, OF h]
      same by auto
  then have ok: "\<not> isl (spectrum_data_src get_spectrum five_ts 2 5)"
    by auto
  have m0: "mismatched_ts ''ica_00'' = Some [1, 2, 3, 4]"
    by (simp add: mismatched_ts_def)
  have mk: "list_all (\<lambda>c. mismatched_ts (column_name c) \<noteq> None) [0..<2]"
    by (simp add: name_eval mismatched_ts_def)
  have md: "length (fst (get_spectrum (the (mismatched_ts (column_name 1))) 2))
       \<noteq> length (fst (get_spectrum [1, 2, 3, 4] 2))"
    by (simp add: name_eval mismatched_ts_def length_get_spectrum)
  have mh: "mismatched_ts ''ica_00'' = Some [1, 2, 3, 4] \<and> fst (get_spectrum [1, 2, 3, 4] 2) \<noteq> []
        \<and> (\<forall>c<2. mismatched_ts (column_name c) \<noteq> None)"
    using m0 mk get_spectrum_nonempty by (simp only: list_all_upt) simp
  have bad: "\<exists>c<2. length (fst (get_spectrum (the (mismatched_ts (column_name c))) 2))
                        \<noteq> length (fst (get_spectrum [1, 2, 3, 4] 2))"
    using md by (intro exI [of _ 1]) simp
  have err: "spectrum_data_src get_spectrum mismatched_ts 2 2 = Inl ValueError"
    using spectrum_bins [of get_spectrum mismatched_ts 2 2 "[1, 2, 3, 4]", THEN conjunct2,
        rule_format, OF mh] bad by auto
  show ?thesis
    by (intro conjI t0 get_spectrum_nonempty k s ok m0 mk md err)
qed

end
